theory Spec2Isabelle
  imports Complex_Main
begin

section \<open>JavaScript values as they reach the generated renderer\<close>

text \<open>
  The values of record fields come from a parsed JSON response. A finite number is
  modelled by its rational value (so \<open>-0\<close> and \<open>0\<close> coincide, as they do under
  \<open>===\<close>), the two infinities and \<open>NaN\<close> are separate constructors, strings are
  lists of code units below 256, and an object or array value is a reference
  (its address), which is what \<open>===\<close> compares.
\<close>

datatype jsval =
    JUndefined
  | JNull
  | JBool bool
  | JNum rat
  | JInf bool
  | JNaN
  | JStr string
  | JRef nat

text \<open>\<open>a === b\<close>: no coercion between types; \<open>NaN\<close> equals nothing.\<close>

fun strict_eq :: "jsval \<Rightarrow> jsval \<Rightarrow> bool" where
  "strict_eq JNaN _ = False"
| "strict_eq _ JNaN = False"
| "strict_eq a b = (a = b)"

definition nullish :: "jsval \<Rightarrow> bool" where
  "nullish v = (v = JUndefined \<or> v = JNull)"

section \<open>Records fetched per entity type\<close>

text \<open>
  A fetched record is an object. \<open>basic\<close> lists its own properties as \<open>e[name]\<close>
  sees them; the three structured lists are held apart, \<open>None\<close> where the record
  has no such list (\<open>if (!tags) return null\<close>).
\<close>

datatype tag_entry = Tag (tkey: jsval) (tvalue: jsval)

datatype prop_entry = Prop (pname: jsval) (pvalue: jsval)

datatype ns_entry = Namespace (nsname: jsval) (nsprops: "prop_entry list option")

datatype entity = Entity
  (basic: "(string \<times> jsval) list")
  (tags: "tag_entry list option")
  (properties: "prop_entry list option")
  (namespaces: "ns_entry list option")

text \<open>\<open>entity[fieldName]\<close>: a missing property reads as \<open>undefined\<close>.\<close>

definition entity_get :: "entity \<Rightarrow> string \<Rightarrow> jsval" where
  "entity_get e f = (case map_of (basic e) f of None \<Rightarrow> JUndefined | Some v \<Rightarrow> v)"

definition getTagValue :: "tag_entry list option \<Rightarrow> string \<Rightarrow> jsval" where
  "getTagValue ts k =
     (case ts of
        None \<Rightarrow> JNull
      | Some l \<Rightarrow>
          (case find (\<lambda>t. strict_eq (tkey t) (JStr k)) l of
             None \<Rightarrow> JUndefined
           | Some t \<Rightarrow> tvalue t))"

definition getPropertyValue :: "prop_entry list option \<Rightarrow> string \<Rightarrow> jsval" where
  "getPropertyValue ps n =
     (case ps of
        None \<Rightarrow> JNull
      | Some l \<Rightarrow>
          (case find (\<lambda>p. strict_eq (pname p) (JStr n)) l of
             None \<Rightarrow> JUndefined
           | Some p \<Rightarrow> pvalue p))"

definition getNamespaceProperty :: "entity \<Rightarrow> string \<Rightarrow> string \<Rightarrow> jsval" where
  "getNamespaceProperty e nsName propName =
     (case namespaces e of
        None \<Rightarrow> JNull
      | Some nss \<Rightarrow>
          (case find (\<lambda>n. strict_eq (nsname n) (JStr nsName)) nss of
             None \<Rightarrow> JNull
           | Some n \<Rightarrow>
               (case nsprops n of
                  None \<Rightarrow> JNull
                | Some ps \<Rightarrow>
                    (case find (\<lambda>p. strict_eq (pname p) (JStr propName)) ps of
                       None \<Rightarrow> JUndefined
                     | Some p \<Rightarrow> pvalue p))))"

section \<open>Small string operations of the source\<close>

fun startsWith :: "string \<Rightarrow> string \<Rightarrow> bool" where
  "startsWith _ [] = True"
| "startsWith [] (_ # _) = False"
| "startsWith (c # cs) (p # ps) = (c = p \<and> startsWith cs ps)"

text \<open>\<open>loc.split(':')[1]\<close> for a \<open>loc\<close> that starts with \<open>namespace:\<close>: the text
  between the first colon and the next one (or the end).\<close>

definition namespace_of :: "string \<Rightarrow> string" where
  "namespace_of loc = takeWhile (\<lambda>c. c \<noteq> CHR '':'') (drop 10 loc)"

section \<open>The renderer's configuration and the join engine\<close>

datatype relationship = Relationship
  (rel_from: string)
  (rel_to: string)
  (fromField: string)
  (toField: string)
  (fromLocation: "string option")
  (toLocation: "string option")

text \<open>
  \<open>builderConfig\<close> as the renderer's constructor stores it. Every relationship of the
  list is a relationship object (the data model's sequence of Relationship).
\<close>

datatype config = Config
  (entityTypes: "string list")
  (relationships: "relationship list")

type_synonym entity_data = "string \<Rightarrow> entity list option"

text \<open>\<open>this.entityData[t] || []\<close>\<close>

definition data_or_empty :: "entity_data \<Rightarrow> string \<Rightarrow> entity list" where
  "data_or_empty d t = (case d t of None \<Rightarrow> [] | Some l \<Rightarrow> l)"

text \<open>The probe over all namespaces at the end of \<open>getRelationshipValue\<close>.\<close>

fun probe_namespaces :: "ns_entry list \<Rightarrow> string \<Rightarrow> jsval" where
  "probe_namespaces [] f = JUndefined"
| "probe_namespaces (n # ns) f =
     (case nsprops n of
        None \<Rightarrow> probe_namespaces ns f
      | Some ps \<Rightarrow>
          (case find (\<lambda>p. strict_eq (pname p) (JStr f)) ps of
             None \<Rightarrow> probe_namespaces ns f
           | Some p \<Rightarrow> pvalue p))"

definition getRelationshipValue :: "entity \<Rightarrow> string \<Rightarrow> string option \<Rightarrow> jsval" where
  "getRelationshipValue e fieldName location =
     (if fieldName = [] then JUndefined
      else
        let loc = (case location of None \<Rightarrow> ''auto''
                   | Some l \<Rightarrow> if l = [] then ''auto'' else l)
        in if loc = ''basic'' then entity_get e fieldName
           else if loc = ''tag'' then getTagValue (tags e) fieldName
           else if loc = ''property'' then getPropertyValue (properties e) fieldName
           else if startsWith loc ''namespace:''
             then getNamespaceProperty e (namespace_of loc) fieldName
           else if \<not> nullish (entity_get e fieldName) then entity_get e fieldName
           else if \<not> nullish (getPropertyValue (properties e) fieldName)
             then getPropertyValue (properties e) fieldName
           else if \<not> nullish (getTagValue (tags e) fieldName)
             then getTagValue (tags e) fieldName
           else (case namespaces e of
                   None \<Rightarrow> JUndefined
                 | Some nss \<Rightarrow> probe_namespaces nss fieldName))"

definition valuesMatch :: "jsval \<Rightarrow> jsval \<Rightarrow> bool" where
  "valuesMatch parentValue childValue =
     (if parentValue = JUndefined \<or> parentValue = JNull then False
      else if childValue = JUndefined \<or> childValue = JNull then False
      else strict_eq parentValue childValue)"

datatype node = Node
  (entityType: "string option")
  (entity: entity)
  (children: "node list")

text \<open>\<open>xs[i]\<close> read from a JavaScript array: \<open>undefined\<close> out of range.\<close>

definition nth_opt :: "'a list \<Rightarrow> nat \<Rightarrow> 'a option" where
  "nth_opt xs i = (if i < length xs then Some (xs ! i) else None)"

text \<open>The filter predicate inside \<open>buildNode\<close>.\<close>

definition childMatches :: "relationship \<Rightarrow> entity \<Rightarrow> entity \<Rightarrow> bool" where
  "childMatches rel e child =
     valuesMatch (getRelationshipValue e (fromField rel) (fromLocation rel))
                 (getRelationshipValue child (toField rel) (toLocation rel))"

function buildNode :: "config \<Rightarrow> entity_data \<Rightarrow> nat \<Rightarrow> entity \<Rightarrow> node" where
  "buildNode cfg d depth e =
     Node (nth_opt (entityTypes cfg) depth) e
       (if depth < length (relationships cfg)
        then map (buildNode cfg d (Suc depth))
               (filter (childMatches (relationships cfg ! depth) e)
                  (data_or_empty d (rel_to (relationships cfg ! depth))))
        else [])"
  by pat_completeness auto
termination
  by (relation "measure (\<lambda>(cfg, d, depth, e). length (relationships cfg) - depth)") auto

declare buildNode.simps [simp del]

definition buildNodes :: "config \<Rightarrow> entity_data \<Rightarrow> node list" where
  "buildNodes cfg d =
     (if entityTypes cfg = [] then []
      else map (buildNode cfg d 0) (data_or_empty d (entityTypes cfg ! 0)))"

section \<open>Flattening the tree into rows\<close>

text \<open>
  A row cell is \<open>null\<close>, a node, the bare \<open>{ entity }\<close> object of the fallback
  branch, or a hole left by an assignment past the end of the array.
\<close>

datatype cell = CNull | CHole | CNode node | CEntity entity

text \<open>\<open>row[i] = v\<close> on a JavaScript array: an index past the end extends it.\<close>

definition js_set :: "cell list \<Rightarrow> nat \<Rightarrow> cell \<Rightarrow> cell list" where
  "js_set row i v =
     (if i < length row then row[i := v]
      else row @ replicate (i - length row) CHole @ [v])"

fun traverse :: "nat \<Rightarrow> nat \<Rightarrow> node \<Rightarrow> cell list \<Rightarrow> cell list list" where
  "traverse depthCount depth (Node t e cs) currentRow =
     (let nextRow = js_set currentRow depth (CNode (Node t e cs))
      in if cs = [] \<or> int depth = int depthCount - 1 then [nextRow]
         else concat (map (\<lambda>child. traverse depthCount (Suc depth) child nextRow) cs))"

definition depthCount_of :: "config \<Rightarrow> nat" where
  "depthCount_of cfg = (if length (entityTypes cfg) = 0 then 1 else length (entityTypes cfg))"

definition collectRows :: "config \<Rightarrow> entity_data \<Rightarrow> cell list list" where
  "collectRows cfg d =
     (let nodes = buildNodes cfg d;
          depthCount = depthCount_of cfg;
          rows = concat (map (\<lambda>n. traverse depthCount 0 n (replicate depthCount CNull)) nodes);
          fallback =
            (if nodes = [] \<and> entityTypes cfg \<noteq> []
             then map (\<lambda>e. js_set (replicate depthCount CNull) 0 (CEntity e))
                    (data_or_empty d (entityTypes cfg ! 0))
             else [])
      in rows @ fallback)"

declare traverse.simps [simp del]

section \<open>Measures on node trees\<close>

text \<open>The number of edges on the longest path from a node down to a leaf.\<close>

fun node_height :: "node \<Rightarrow> nat" where
  "node_height (Node t e cs) = (if cs = [] then 0 else Suc (Max (set (map node_height cs))))"

text \<open>
  The terminal branches below a node at a given depth, in the words of the
  specification: a branch ends at a leaf or at the last configured entity type
  (column \<open>typeCount - 1\<close>).
\<close>

fun terminal_branches :: "nat \<Rightarrow> nat \<Rightarrow> node \<Rightarrow> nat" where
  "terminal_branches typeCount depth (Node t e cs) =
     (if cs = [] \<or> Suc depth = typeCount then 1
      else sum_list (map (terminal_branches typeCount (Suc depth)) cs))"

text \<open>The leaves of a tree.\<close>

fun leaves :: "node \<Rightarrow> nat" where
  "leaves (Node t e cs) = (if cs = [] then 1 else sum_list (map leaves cs))"


section \<open>Sample data\<close>

text \<open>
  Entity type A with records \<open>{id: 1}\<close>, \<open>{id: 2}\<close>; entity type B with records
  \<open>{aId: 1, name: "x"}\<close>, \<open>{aId: 1, name: "y"}\<close>, \<open>{aId: 3, name: "z"}\<close>;
  relationship \<open>A.id = B.aId\<close>.
\<close>

definition example_cfg :: config where
  "example_cfg = Config [''A'', ''B'']
     [Relationship ''A'' ''B'' ''id'' ''aId'' (Some ''basic'') (Some ''basic'')]"

definition rec_a1 :: entity where
  "rec_a1 = Entity [(''id'', JNum 1)] None None None"

definition rec_a2 :: entity where
  "rec_a2 = Entity [(''id'', JNum 2)] None None None"

definition rec_bx :: entity where
  "rec_bx = Entity [(''aId'', JNum 1), (''name'', JStr ''x'')] None None None"

definition rec_by :: entity where
  "rec_by = Entity [(''aId'', JNum 1), (''name'', JStr ''y'')] None None None"

definition rec_bz :: entity where
  "rec_bz = Entity [(''aId'', JNum 3), (''name'', JStr ''z'')] None None None"

definition example_data :: entity_data where
  "example_data = map_of [(''A'', [rec_a1, rec_a2]), (''B'', [rec_bx, rec_by, rec_bz])]"

text \<open>Data in which no record of B joins the only record of A.\<close>

definition nomatch_data :: entity_data where
  "nomatch_data = map_of [(''A'', [rec_a2]), (''B'', [rec_bx, rec_bz])]"

text \<open>An entity type joined to itself on the same field.\<close>

definition self_cfg :: config where
  "self_cfg = Config [''A'', ''A'']
     [Relationship ''A'' ''A'' ''id'' ''id'' (Some ''basic'') (Some ''basic'')]"

section \<open>The schema and relationship auto-detection\<close>

text \<open>
  An entity type descriptor of the loaded schema. Each field list may be absent;
  \<open>fnamespaces\<close> lists the namespaces in the order \<open>Object.entries\<close> enumerates them.
\<close>

datatype field_lists = FieldLists
  (fbasic: "string list option")
  (ftags: "string list option")
  (fproperties: "string list option")
  (fnamespaces: "(string \<times> string list) list option")

datatype entity_type = EntityType
  (et_name: string)
  (et_fields: "field_lists option")

text \<open>\<open>schema.entityTypes\<close>\<close>

type_synonym schema = "entity_type list"

datatype field_ref = FieldRef (fname: string) (flocation: string)

text \<open>\<open>xs || []\<close>\<close>

definition or_empty :: "'a list option \<Rightarrow> 'a list" where
  "or_empty xs = (case xs of None \<Rightarrow> [] | Some l \<Rightarrow> l)"

definition getAllFields :: "entity_type option \<Rightarrow> field_ref list" where
  "getAllFields ent =
     (case ent of
        None \<Rightarrow> []
      | Some et \<Rightarrow>
          (case et_fields et of
             None \<Rightarrow> []
           | Some fl \<Rightarrow>
               map (\<lambda>n. FieldRef n ''basic'') (or_empty (fbasic fl))
               @ map (\<lambda>n. FieldRef n ''tag'') (or_empty (ftags fl))
               @ map (\<lambda>n. FieldRef n ''property'') (or_empty (fproperties fl))
               @ (case fnamespaces fl of
                    None \<Rightarrow> []
                  | Some nss \<Rightarrow>
                      concat (map (\<lambda>(nsName, props).
                                map (\<lambda>p. FieldRef p (''namespace:'' @ nsName)) props) nss))))"

text \<open>\<open>props.includes(fieldName)\<close> over the namespaces, first match wins.\<close>

fun resolve_in_namespaces :: "(string \<times> string list) list \<Rightarrow> string \<Rightarrow> string" where
  "resolve_in_namespaces [] f = ''basic''"
| "resolve_in_namespaces ((nsName, props) # rest) f =
     (if f \<in> set props then ''namespace:'' @ nsName else resolve_in_namespaces rest f)"

definition resolveFieldLocation :: "schema \<Rightarrow> string \<Rightarrow> string \<Rightarrow> string" where
  "resolveFieldLocation sch entityTypeName fieldName =
     (case find (\<lambda>et. et_name et = entityTypeName) sch of
        None \<Rightarrow> ''basic''
      | Some et \<Rightarrow>
          (case et_fields et of
             None \<Rightarrow> ''basic''
           | Some fl \<Rightarrow>
               if fieldName \<in> set (or_empty (fbasic fl)) then ''basic''
               else if fieldName \<in> set (or_empty (ftags fl)) then ''tag''
               else if fieldName \<in> set (or_empty (fproperties fl)) then ''property''
               else (case fnamespaces fl of
                       None \<Rightarrow> ''basic''
                     | Some nss \<Rightarrow> resolve_in_namespaces nss fieldName)))"

datatype common_field = CommonField
  (cname: string)
  (cfromLocation: string)
  (ctoLocation: string)

definition getCommonFields :: "schema \<Rightarrow> string \<Rightarrow> string \<Rightarrow> common_field list" where
  "getCommonFields sch type1 type2 =
     (let entity1 = find (\<lambda>et. et_name et = type1) sch;
          entity2 = find (\<lambda>et. et_name et = type2) sch
      in if (case entity1 of None \<Rightarrow> True | Some et \<Rightarrow> et_fields et = None)
            \<or> (case entity2 of None \<Rightarrow> True | Some et \<Rightarrow> et_fields et = None)
         then []
         else
           let fields1 = getAllFields entity1;
               fields2 = getAllFields entity2;
               map2 = map_of (map (\<lambda>f. (fname f, flocation f)) fields2)
           in concat (map (\<lambda>f. case map2 (fname f) of
                                  None \<Rightarrow> []
                                | Some toLoc \<Rightarrow> [CommonField (fname f) (flocation f) toLoc])
                        fields1))"

text \<open>
  \<open>toLowerCase\<close> on code units below 256: the ASCII capitals and the Latin-1 capitals
  (\<open>0xC0\<close> to \<open>0xDE\<close> without the multiplication sign) move up by 32.
\<close>

definition toLowerChar :: "char \<Rightarrow> char" where
  "toLowerChar c =
     (let n = (of_char c :: nat)
      in if (65 \<le> n \<and> n \<le> 90) \<or> (192 \<le> n \<and> n \<le> 222 \<and> n \<noteq> 215)
         then char_of (n + 32) else c)"

definition toLowerCase :: "string \<Rightarrow> string" where
  "toLowerCase s = map toLowerChar s"

text \<open>\<open>s.includes(pat)\<close>: \<open>pat\<close> occurs in \<open>s\<close> as a contiguous run.\<close>

fun str_includes :: "string \<Rightarrow> string \<Rightarrow> bool" where
  "str_includes [] pat = (pat = [])"
| "str_includes (c # cs) pat = (startsWith (c # cs) pat \<or> str_includes cs pat)"

text \<open>The predicate handed to \<open>commonFields.find\<close>.\<close>

definition looksLikeKey :: "common_field \<Rightarrow> bool" where
  "looksLikeKey f =
     (str_includes (toLowerCase (cname f)) ''id''
      \<or> str_includes (toLowerCase (cname f)) ''guid''
      \<or> str_includes (toLowerCase (cname f)) ''name'')"

text \<open>\<open>commonFields.find(...) || commonFields[0]\<close>, for a non-empty list.\<close>

definition preferredFieldMeta :: "common_field list \<Rightarrow> common_field" where
  "preferredFieldMeta commonFields =
     (case find looksLikeKey commonFields of
        Some f \<Rightarrow> f
      | None \<Rightarrow> commonFields ! 0)"

text \<open>One turn of the loop of \<open>autoDetectRelationships\<close>.\<close>

definition detectPair :: "schema \<Rightarrow> string \<Rightarrow> string \<Rightarrow> relationship option" where
  "detectPair sch fromType toType =
     (let commonFields = getCommonFields sch fromType toType
      in if length commonFields > 0
         then
           let p = preferredFieldMeta commonFields
           in Some (Relationship fromType toType (cname p) (cname p)
                (Some (if cfromLocation p \<noteq> [] then cfromLocation p
                       else resolveFieldLocation sch fromType (cname p)))
                (Some (if ctoLocation p \<noteq> [] then ctoLocation p
                       else resolveFieldLocation sch toType (cname p))))
         else None)"

definition autoDetectRelationships :: "schema \<Rightarrow> string list \<Rightarrow> relationship list" where
  "autoDetectRelationships sch selectedEntityTypes =
     List.map_filter
       (\<lambda>i. detectPair sch (selectedEntityTypes ! i) (selectedEntityTypes ! (i + 1)))
       [0 ..< length selectedEntityTypes - 1]"

text \<open>
  The tie-break in the words of the specification: a common field whose lower-cased
  name contains \<open>id\<close>, else one that contains \<open>guid\<close>, else one that contains
  \<open>name\<close>, else the first common field.
\<close>

definition spec_tiebreak :: "common_field list \<Rightarrow> common_field" where
  "spec_tiebreak commonFields =
     (case find (\<lambda>f. str_includes (toLowerCase (cname f)) ''id'') commonFields of
        Some f \<Rightarrow> f
      | None \<Rightarrow>
          (case find (\<lambda>f. str_includes (toLowerCase (cname f)) ''guid'') commonFields of
             Some f \<Rightarrow> f
           | None \<Rightarrow>
               (case find (\<lambda>f. str_includes (toLowerCase (cname f)) ''name'') commonFields of
                  Some f \<Rightarrow> f
                | None \<Rightarrow> commonFields ! 0)))"

text \<open>What the single \<open>find\<close> of the source selects.\<close>

definition first_keylike :: "common_field list \<Rightarrow> common_field" where
  "first_keylike commonFields =
     (case find (\<lambda>f. str_includes (toLowerCase (cname f)) ''id''
                     \<or> str_includes (toLowerCase (cname f)) ''name'') commonFields of
        Some f \<Rightarrow> f
      | None \<Rightarrow> commonFields ! 0)"

text \<open>Two entity types that share the fields \<open>name\<close> and \<open>id\<close>.\<close>

definition name_first_schema :: schema where
  "name_first_schema =
     [EntityType ''A'' (Some (FieldLists (Some [''name'', ''id'']) None None None)),
      EntityType ''B'' (Some (FieldLists (Some [''id'', ''name'']) None None None))]"

section \<open>Text helpers\<close>

text \<open>\<open>xs.join(sep)\<close>\<close>

fun join :: "string \<Rightarrow> string list \<Rightarrow> string" where
  "join sep [] = []"
| "join sep [x] = x"
| "join sep (x # y # ys) = x @ sep @ join sep (y # ys)"

text \<open>The decimal text of a non-negative integer, as a template literal prints it.\<close>

definition digit_char :: "nat \<Rightarrow> char" where
  "digit_char d = ''0123456789'' ! d"

function nat_to_string :: "nat \<Rightarrow> string" where
  "nat_to_string n =
     (if n < 10 then [digit_char n] else nat_to_string (n div 10) @ [digit_char (n mod 10)])"
  by pat_completeness auto
termination
  by (relation "measure (\<lambda>n. n)") auto

declare nat_to_string.simps [simp del]

text \<open>\<open>s.replace(/\./g, '_')\<close>\<close>

definition dots_to_underscores :: "string \<Rightarrow> string" where
  "dots_to_underscores s = map (\<lambda>c. if c = CHR ''.'' then CHR ''_'' else c) s"

section \<open>HTML escaping\<close>

definition escapeChar :: "char \<Rightarrow> string" where
  \<open>escapeChar c =
     (if c = CHR ''<'' then ''&lt;''
      else if c = CHR ''>'' then ''&gt;''
      else if c = CHR ''&'' then ''&amp;''
      else if c = CHR 0x22 then ''&quot;''
      else if c = CHR 0x27 then ''&#39;''
      else [c])\<close>

text \<open>\<open>escapeHTML(str)\<close>; an empty string is returned as it is by the first line.\<close>

definition escapeHTML :: "string \<Rightarrow> string" where
  "escapeHTML str = (if str = [] then [] else concat (map escapeChar str))"


section \<open>Aggregate statistics\<close>

datatype stat = Stat
  (stat_id: nat)
  (operation: string)
  (field: string)
  (label: string)

text \<open>\<open>aggregateStats\<close>: entity type to its stats, in the order \<open>Object.entries\<close> gives.\<close>

type_synonym aggregate_stats = "(string \<times> stat list) list"

text \<open>
  What the compiler can throw: a ReferenceError for an identifier, or
  \<open>new ReportBuilderError(message, code)\<close>.
\<close>

datatype js_error =
    ReferenceError string
  | ReportBuilderError string string

text \<open>\<open>Object.keys(aggregateStats).some(et => aggregateStats[et].length > 0)\<close>\<close>

definition hasStats :: "aggregate_stats \<Rightarrow> bool" where
  "hasStats stats = list_ex (\<lambda>(et, sts). length sts > 0) stats"

definition statId :: "string \<Rightarrow> stat \<Rightarrow> string" where
  "statId et st = et @ ''_'' @ nat_to_string (stat_id st)"

text \<open>The arguments of \<open>aggregateEntities\<close>: the field is listed only when it is set.\<close>

definition aggregateArgs :: "string \<Rightarrow> stat \<Rightarrow> string" where
  \<open>aggregateArgs et st =
     (let fld = (if field st \<noteq> [] then ''field: "'' @ field st @ [CHR 0x22] else [])
      in join '', '' (filter (\<lambda>s. s \<noteq> []) [''entityType: "'' @ et @ [CHR 0x22], fld]))\<close>

definition resultFields :: "string \<Rightarrow> string" where
  "resultFields op =
     (if op = ''COUNT'' then ''count''
      else if op \<in> set [''SUM'', ''AVG'', ''MIN'', ''MAX'']
        then (''sum\<newline>''
             @ ''          avg\<newline>''
             @ ''          min\<newline>''
             @ ''          max'')
      else ''count'')"

text \<open>The fetch unit appended for one stat.\<close>

definition statFetchCode :: "string \<Rightarrow> stat \<Rightarrow> string" where
  \<open>statFetchCode et st =
     (''\<newline>''
       @ ''async function fetchAggregateStat_'')
     @ statId et st
     @ (''() {\<newline>''
       @ ''  const query = `\<newline>''
       @ ''    query AggregateStat'')
     @ statId et st
     @ ('' {\<newline>''
       @ ''      aggregateQuery {\<newline>''
       @ ''        aggregateEntities('')
     @ aggregateArgs et st
     @ ('') {\<newline>''
       @ ''          '')
     @ resultFields (operation st)
     @ (''\<newline>''
       @ ''        }\<newline>''
       @ ''      }\<newline>''
       @ ''    }\<newline>''
       @ ''  `;\<newline>''
       @ ''\<newline>''
       @ ''  const response = await fetch(serviceUrl, {\<newline>''
       @ ''    method: 'POST',\<newline>''
       @ ''    headers: { 'Content-Type': 'application/json', 'Authorization': bearerToken },\<newline>''
       @ ''    body: JSON.stringify({ query })\<newline>''
       @ ''  });\<newline>''
       @ ''\<newline>''
       @ ''  const result = await response.json();\<newline>''
       @ ''  if (result.errors) throw new Error(result.errors[0].message);\<newline>''
       @ ''  aggregateData['' @ [CHR 0x27])
     @ et @ ([CHR 0x27] @ '']['' @ [CHR 0x27]) @ nat_to_string (stat_id st)
     @ ([CHR 0x27] @ ''] = result.data.aggregateQuery.aggregateEntities;\<newline>''
       @ ''}\<newline>'')\<close>

definition statFetchCall :: "string \<Rightarrow> stat \<Rightarrow> string" where
  "statFetchCall et st = ''fetchAggregateStat_'' @ statId et st @ ''()''"

text \<open>
  The loop over \<open>Object.entries(aggregateStats)\<close>. It reads the identifier
  \<open>aggregateData\<close> in the builder's own scope, where the source declares no such
  variable (the name occurs only inside the generated text). The binding is therefore
  an argument: \<open>None\<close> when the page defines no such global, in which case the read
  throws a ReferenceError, and otherwise the keys under which it holds a truthy value.
\<close>

fun aggregateQueryLoop ::
  "string list option \<Rightarrow> aggregate_stats \<Rightarrow> string \<times> string list
     \<Rightarrow> js_error + (string \<times> string list)" where
  "aggregateQueryLoop g [] acc = Inr acc"
| "aggregateQueryLoop g ((et, sts) # rest) (code, fetchFunctions) =
     (if length sts = 0 then aggregateQueryLoop g rest (code, fetchFunctions)
      else
        (case g of
           None \<Rightarrow> Inl (ReferenceError ''aggregateData'')
         | Some ks \<Rightarrow>
             aggregateQueryLoop g rest
               (code
                @ (if et \<in> set ks then [] else (''aggregateData['' @ [CHR 0x27] @ et @ [CHR 0x27] @ ''] = {};\<newline>''))
                @ concat (map (statFetchCode et) sts),
                fetchFunctions @ map (statFetchCall et) sts)))"

definition generateAggregateQueries ::
  "string list option \<Rightarrow> aggregate_stats \<Rightarrow> js_error + string" where
  "generateAggregateQueries g stats =
     (if \<not> hasStats stats then Inr []
      else
        (case aggregateQueryLoop g stats ((''const aggregateData = {};\<newline>''
       @ ''\<newline>''), []) of
           Inl err \<Rightarrow> Inl err
         | Inr (code, fetchFunctions) \<Rightarrow>
             Inr (code
                  @ (''\<newline>''
                    @ ''async function fetchAllAggregates() {\<newline>''
                    @ ''  await Promise.all(['')
                  @ join '', '' fetchFunctions
                  @ ('']);\<newline>''
                    @ ''  renderAggregateStats();\<newline>''
                    @ ''}\<newline>''))))"

text \<open>\<open>stat.label || `${stat.operation}${stat.field ? ' ' + stat.field : ''}`\<close>\<close>

definition statLabelText :: "stat \<Rightarrow> string" where
  "statLabelText st =
     (if label st \<noteq> [] then label st
      else operation st @ (if field st \<noteq> [] then '' '' @ field st else []))"

text \<open>
  The text appended for one stat by \<open>generateAggregateRenderer\<close>, after its two
  constants \<open>label\<close> and \<open>operation\<close> are bound.
\<close>

definition statCard :: "string \<Rightarrow> nat \<Rightarrow> string \<Rightarrow> string \<Rightarrow> string" where
  \<open>statCard et sid op lbl =
     (''\<newline>''
       @ ''    // '') @ lbl @ (''\<newline>''
       @ ''    const data = aggregateData['' @ [CHR 0x27])
     @ et @ ([CHR 0x27] @ '']?.['' @ [CHR 0x27]) @ nat_to_string sid @ ([CHR 0x27] @ ''];\<newline>''
       @ ''    if (data) {\<newline>'')
     @ (if op = ''COUNT'' then
          (''      html += `<div class="stat-card">\<newline>''
          @ ''        <div class="stat-label">'') @ lbl
          @ (''</div>\<newline>''
          @ ''        <div class="stat-value">${(data.count || 0).toLocaleString()}</div>\<newline>''
          @ ''      </div>`;\<newline>'')
        else if op = ''SUM'' then
          (''      html += `<div class="stat-card">\<newline>''
          @ ''        <div class="stat-label">'') @ lbl
          @ (''</div>\<newline>''
          @ ''        <div class="stat-value">${(data.sum || 0).toLocaleString()}</div>\<newline>''
          @ ''      </div>`;\<newline>'')
        else if op = ''AVG'' then
          (''      html += `<div class="stat-card">\<newline>''
          @ ''        <div class="stat-label">'') @ lbl
          @ (''</div>\<newline>''
          @ ''        <div class="stat-value">${(data.avg || 0).toFixed(2)}</div>\<newline>''
          @ ''      </div>`;\<newline>'')
        else if op = ''MIN'' then
          (''      html += `<div class="stat-card">\<newline>''
          @ ''        <div class="stat-label">'') @ lbl
          @ (''</div>\<newline>''
          @ ''        <div class="stat-value">${(data.min || 0).toLocaleString()}</div>\<newline>''
          @ ''      </div>`;\<newline>'')
        else if op = ''MAX'' then
          (''      html += `<div class="stat-card">\<newline>''
          @ ''        <div class="stat-label">'') @ lbl
          @ (''</div>\<newline>''
          @ ''        <div class="stat-value">${(data.max || 0).toLocaleString()}</div>\<newline>''
          @ ''      </div>`;\<newline>'')
        else [])
     @ ''    }\<newline>''\<close>

definition renderStat :: "string \<Rightarrow> stat \<Rightarrow> string" where
  "renderStat et st = statCard et (stat_id st) (operation st) (escapeHTML (statLabelText st))"

definition renderEntityStats :: "string \<times> stat list \<Rightarrow> string" where
  \<open>renderEntityStats p =
     (case p of (et, sts) \<Rightarrow>
        if length sts = 0 then []
        else
          (let safeId = dots_to_underscores et
           in (''\<newline>''
              @ ''  // Stats for '') @ et @ (''\<newline>''
              @ ''  const container_'')
              @ safeId @ '' = document.getElementById('aggregate-stats-''
              @ safeId @ ([CHR 0x27] @ '');\<newline>''
              @ ''  if (container_'') @ safeId
              @ ('') {\<newline>''
              @ ''    let html = '<div class="aggregate-stats-container">';\<newline>'')
              @ concat (map (renderStat et) sts)
              @ (''    html += '</div>';\<newline>''
              @ ''    container_'')
              @ safeId @ (''.innerHTML = html;\<newline>''
              @ ''  }\<newline>'')))\<close>

definition generateAggregateRenderer :: "aggregate_stats \<Rightarrow> string" where
  "generateAggregateRenderer stats =
     (if \<not> hasStats stats then []
      else
        (''\<newline>''
        @ ''function renderAggregateStats() {\<newline>''
        @ ''  // Render stats for each entity type\<newline>'')
        @ concat (map renderEntityStats stats)
        @ ''}\<newline>'')"

text \<open>
  Every \<open><\<close> of a text is followed by \<open>d\<close> or \<open>/\<close>: it opens or closes a
  \<open>div\<close>, the one tag of the renderer's own templates.
\<close>

fun lt_guarded :: "string \<Rightarrow> bool" where
  "lt_guarded [] = True"
| "lt_guarded [c] = (c \<noteq> CHR ''<'')"
| "lt_guarded (c # d # cs) =
     ((c = CHR ''<'' \<longrightarrow> d = CHR ''d'' \<or> d = CHR ''/'') \<and> lt_guarded (d # cs))"


section \<open>The builder's state\<close>

datatype selected_field = SelectedField
  (sf_name: string)
  (sf_location: string)
  (sf_zone: "string option")
  (sf_showLabel: bool)

text \<open>
  The module-level variables of the builder that the compiler reads or writes.
  \<open>builder_relationships\<close> is the global \<open>relationships\<close>, whose entries may be
  empty (the source guards them with \<open>rel?.from\<close>); objects keyed by entity type are
  association lists in enumeration order; \<open>schemaCache_entityMap\<close> is the map of
  \<open>schemaCache\<close>, \<open>None\<close> before it is built; \<open>aggregateData_binding\<close> is the
  binding of the identifier \<open>aggregateData\<close> in the page's global scope.
\<close>

record builder =
  schema :: "entity_type list"
  schemaCache_entityMap :: "(string \<times> entity_type) list option"
  selectedEntityTypes :: "string list"
  builder_relationships :: "relationship option list"
  selectedFields :: "(string \<times> selected_field list) list"
  aggregateStats :: aggregate_stats
  customQueryOverride :: string
  cachedOverrideValue :: string
  cachedOverrideMap :: "(string \<times> string) list option"
  aggregateData_binding :: "string list option"

section \<open>Fields needed per entity type\<close>

text \<open>\<open>if (!required.some(...)) required.push(entry)\<close>\<close>

definition pushRequired :: "selected_field list \<Rightarrow> string \<Rightarrow> string \<Rightarrow> selected_field list" where
  "pushRequired required nm loc =
     (if list_ex (\<lambda>f. sf_name f = nm \<and> sf_location f = loc) required then required
      else required @ [SelectedField nm loc None True])"

text \<open>\<open>rel.fromLocation || resolveFieldLocation(entityType, rel.fromField)\<close>\<close>

definition location_or_resolve :: "builder \<Rightarrow> string option \<Rightarrow> string \<Rightarrow> string \<Rightarrow> string" where
  "location_or_resolve b loc etype fieldName =
     (case loc of
        None \<Rightarrow> resolveFieldLocation (schema b) etype fieldName
      | Some l \<Rightarrow> if l = [] then resolveFieldLocation (schema b) etype fieldName else l)"

definition neededStep ::
  "builder \<Rightarrow> string \<Rightarrow> selected_field list \<Rightarrow> relationship option \<Rightarrow> selected_field list" where
  "neededStep b etype required rel =
     (case rel of
        None \<Rightarrow> required
      | Some r \<Rightarrow>
          (let r1 = (if rel_from r = etype \<and> fromField r \<noteq> []
                     then pushRequired required (fromField r)
                            (location_or_resolve b (fromLocation r) etype (fromField r))
                     else required)
           in if rel_to r = etype \<and> toField r \<noteq> []
              then pushRequired r1 (toField r)
                     (location_or_resolve b (toLocation r) etype (toField r))
              else r1))"

definition getFieldsNeededForEntity :: "builder \<Rightarrow> string \<Rightarrow> selected_field list" where
  "getFieldsNeededForEntity b etype =
     foldl (neededStep b etype)
       (case map_of (selectedFields b) etype of None \<Rightarrow> [] | Some fs \<Rightarrow> fs)
       (builder_relationships b)"

section \<open>The selection set shown by the query inspector\<close>




text \<open>The namespaces named by the needed fields (only whether there is one is used).\<close>

definition neededNamespaces :: "selected_field list \<Rightarrow> string list" where
  "neededNamespaces needed =
     remdups (map (\<lambda>f. namespace_of (sf_location f))
                (filter (\<lambda>f. startsWith (sf_location f) ''namespace:'') needed))"


section \<open>The query override\<close>

text \<open>White space as \<open>trim\<close> and \<open>\s\<close> see it, among code units below 256.\<close>

definition isSpace :: "char \<Rightarrow> bool" where
  "isSpace c = ((of_char c :: nat) \<in> {9, 10, 11, 12, 13, 32, 160})"

definition trim :: "string \<Rightarrow> string" where
  "trim s = rev (dropWhile isSpace (rev (dropWhile isSpace s)))"

text \<open>\<open>text.split(/\r?\n/)\<close>\<close>

fun splitLines :: "string \<Rightarrow> string list" where
  "splitLines [] = [[]]"
| "splitLines [c] = (if c = CHR 0x0A then [[], []] else [[c]])"
| "splitLines (c # d # cs) =
     (if c = CHR 0x0A then [] # splitLines (d # cs)
      else if c = CHR 0x0D \<and> d = CHR 0x0A then [] # splitLines cs
      else (case splitLines (d # cs) of
              [] \<Rightarrow> [[c]]
            | l # ls \<Rightarrow> (c # l) # ls))"

text \<open>
  \<open>line.match(/^#\s*(.+)$/)\<close>, giving the captured group. The dot matches no line
  terminator; when only white space follows the hash sign, backtracking leaves the
  last white-space character to the group.
\<close>

definition isLineTerminator :: "char \<Rightarrow> bool" where
  "isLineTerminator c = (c = CHR 0x0A \<or> c = CHR 0x0D)"

definition headerMatch :: "string \<Rightarrow> string option" where
  "headerMatch line =
     (case line of
        [] \<Rightarrow> None
      | c # r \<Rightarrow>
          if c \<noteq> CHR ''#'' then None
          else
            (let body = dropWhile isSpace r
             in if body \<noteq> []
                then (if list_ex isLineTerminator body then None else Some body)
                else if r = [] then None
                else if isLineTerminator (last r) then None
                else Some [last r]))"

text \<open>\<open>obj[k] = v\<close> on an object held as an association list.\<close>

fun obj_set :: "(string \<times> string) list \<Rightarrow> string \<Rightarrow> string \<Rightarrow> (string \<times> string) list" where
  "obj_set [] k v = [(k, v)]"
| "obj_set ((k', v') # rest) k v =
     (if k' = k then (k, v) # rest else (k', v') # obj_set rest k v)"

text \<open>The state of the loop over the lines: \<open>sections\<close>, \<open>current\<close>, \<open>buffer\<close>.\<close>

type_synonym parse_state = "(string \<times> string) list \<times> string option \<times> string list"

text \<open>\<open>if (current && buffer.length) sections[current] = buffer.join('\n').trim()\<close>\<close>

definition flushSection :: "parse_state \<Rightarrow> (string \<times> string) list" where
  "flushSection st =
     (case st of (sections, current, buffer) \<Rightarrow>
        (case current of
           None \<Rightarrow> sections
         | Some cur \<Rightarrow>
             if cur \<noteq> [] \<and> length buffer > 0
             then obj_set sections cur (trim (join [CHR 0x0A] buffer))
             else sections))"

definition parseLine :: "parse_state \<Rightarrow> string \<Rightarrow> parse_state" where
  "parseLine st line =
     (case headerMatch line of
        Some h \<Rightarrow> (flushSection st, Some (trim h), [])
      | None \<Rightarrow> (case st of (sections, current, buffer) \<Rightarrow> (sections, current, buffer @ [line])))"

definition parseOverrideString :: "string list \<Rightarrow> string \<Rightarrow> (string \<times> string) list option" where
  "parseOverrideString types text =
     (let trimmed = trim text
      in if trimmed = [] then None
         else if length types = 1 then Some [(types ! 0, trimmed)]
         else
           (let sections = flushSection (foldl parseLine ([], None, []) (splitLines trimmed))
            in if length sections = 0 then Some [(''__default'', trimmed)]
               else Some sections))"

definition getParsedOverrideMap :: "builder \<Rightarrow> (string \<times> string) list option \<times> builder" where
  "getParsedOverrideMap b =
     (if trim (customQueryOverride b) = []
      then (None, b\<lparr>cachedOverrideValue := [], cachedOverrideMap := None\<rparr>)
      else if cachedOverrideValue b = customQueryOverride b
      then (cachedOverrideMap b, b)
      else
        (let m = parseOverrideString (selectedEntityTypes b) (customQueryOverride b)
         in (m, b\<lparr>cachedOverrideValue := customQueryOverride b, cachedOverrideMap := m\<rparr>)))"

text \<open>\<open>map[entityType] || map.__default || null\<close>: an empty text counts as absent.\<close>

definition truthy_entry :: "(string \<times> string) list \<Rightarrow> string \<Rightarrow> string option" where
  "truthy_entry m k =
     (case map_of m k of None \<Rightarrow> None | Some v \<Rightarrow> if v = [] then None else Some v)"

definition getQueryOverrideForEntity :: "builder \<Rightarrow> string \<Rightarrow> string option \<times> builder" where
  "getQueryOverrideForEntity b etype =
     (case getParsedOverrideMap b of
        (None, b') \<Rightarrow> (None, b')
      | (Some m, b') \<Rightarrow>
          (case truthy_entry m etype of
             Some q \<Rightarrow> (Some q, b')
           | None \<Rightarrow> (truthy_entry m ''__default'', b')))"

section \<open>JSON text of a string\<close>

definition hexDigit :: "nat \<Rightarrow> char" where
  "hexDigit d = ''0123456789abcdef'' ! d"

definition jsonEscapeChar :: "char \<Rightarrow> string" where
  "jsonEscapeChar c =
     (let n = (of_char c :: nat)
      in if c = CHR 0x22 then [CHR 0x5C, CHR 0x22]
         else if c = CHR 0x5C then [CHR 0x5C, CHR 0x5C]
         else if n = 8 then [CHR 0x5C, CHR ''b'']
         else if n = 12 then [CHR 0x5C, CHR ''f'']
         else if n = 10 then [CHR 0x5C, CHR ''n'']
         else if n = 13 then [CHR 0x5C, CHR ''r'']
         else if n = 9 then [CHR 0x5C, CHR ''t'']
         else if n < 32 then [CHR 0x5C, CHR ''u'', CHR ''0'', CHR ''0'', hexDigit (n div 16), hexDigit (n mod 16)]
         else [c])"

text \<open>\<open>JSON.stringify(s)\<close> for a string \<open>s\<close>.\<close>

definition jsonString :: "string \<Rightarrow> string" where
  "jsonString s = [CHR 0x22] @ concat (map jsonEscapeChar s) @ [CHR 0x22]"



section \<open>Query emission of the multi-entity report\<close>

text \<open>The basic-field part of the default query template.\<close>

definition basicSelection :: "selected_field list \<Rightarrow> string" where
  "basicSelection needed =
     (if list_ex (\<lambda>f. sf_location f = ''basic'') needed
      then join (''\<newline>''
             @ ''            '')
             (map sf_name (filter (\<lambda>f. sf_location f = ''basic'') needed))
      else (''entityId\<newline>''
           @ ''            entityName\<newline>''
           @ ''            entityType''))"

definition defaultQueryTemplate :: "selected_field list \<Rightarrow> string" where
  \<open>defaultQueryTemplate needed =
     (''\<newline>''
       @ ''    query GetEntities('' @ [CHR 0x5C] @ ''$first: Int!, '' @ [CHR 0x5C]
       @ ''$entityType: [String!]) {\<newline>''
       @ ''      entityQuery {\<newline>''
       @ ''        queryEntities(first: '' @ [CHR 0x5C] @ ''$first, entityType: '' @ [CHR 0x5C]
       @ ''$entityType) {\<newline>''
       @ ''          totalCount\<newline>''
       @ ''          entities {\<newline>''
       @ ''            '')
     @ basicSelection needed
     @ (''\<newline>''
             @ ''            '')
     @ (if list_ex (\<lambda>f. sf_location f = ''tag'') needed then ''tags { key value }'' else [])
     @ (''\<newline>''
             @ ''            '')
     @ (if list_ex (\<lambda>f. sf_location f = ''property'') needed
        then ''properties { name value }'' else [])
     @ (''\<newline>''
             @ ''            '')
     @ (if length (neededNamespaces needed) > 0
        then (''namespaces {\<newline>''
             @ ''              name\<newline>''
             @ ''              properties { name value }\<newline>''
             @ ''            }'')
        else [])
     @ (''\<newline>''
       @ ''          }\<newline>''
       @ ''        }\<newline>''
       @ ''      }\<newline>''
       @ ''    }\<newline>''
       @ ''  '')\<close>

definition querySnippet :: "string option \<Rightarrow> string \<Rightarrow> string" where
  "querySnippet overrideQuery template =
     (case overrideQuery of
        Some q \<Rightarrow> ''const query = '' @ jsonString q @ '';''
      | None \<Rightarrow> ''const query = `'' @ template @ ''`;'')"

text \<open>The fetch function appended for one entity type, given its query snippet.\<close>

definition fetchFunctionCode :: "string \<Rightarrow> string \<Rightarrow> string" where
  \<open>fetchFunctionCode etype snippet =
     ''async function fetch'' @ dots_to_underscores etype @ (''() {\<newline>''
       @ ''  '')
     @ snippet
     @ (''\<newline>''
       @ ''\<newline>''
       @ ''  const variables = {\<newline>''
       @ ''    first: 1000,\<newline>''
       @ ''    entityType: ["'') @ etype
     @ (''"]\<newline>''
       @ ''  };\<newline>''
       @ ''\<newline>''
       @ ''  const response = await fetch(serviceUrl, {\<newline>''
       @ ''    method: 'POST',\<newline>''
       @ ''    headers: {\<newline>''
       @ ''      'Content-Type': 'application/json',\<newline>''
       @ ''      'Authorization': bearerToken\<newline>''
       @ ''    },\<newline>''
       @ ''    body: JSON.stringify({ query, variables })\<newline>''
       @ ''  });\<newline>''
       @ ''\<newline>''
       @ ''  const result = await response.json();\<newline>''
       @ ''  if (result.errors) throw new Error(result.errors[0].message);\<newline>''
       @ ''\<newline>''
       @ ''  entityData["'') @ etype
     @ (''"] = result.data.entityQuery.queryEntities.entities;\<newline>''
       @ ''  return entityData["'') @ etype
     @ (''"];\<newline>''
       @ ''}\<newline>''
       @ ''\<newline>'')\<close>

text \<open>
  The loop over the selected entity types: the override lookup may rewrite the cache,
  so the builder is threaded through.
\<close>

fun queriesLoop :: "builder \<Rightarrow> string list \<Rightarrow> string \<Rightarrow> string \<times> builder" where
  "queriesLoop b [] code = (code, b)"
| "queriesLoop b (etype # rest) code =
     (let needed = getFieldsNeededForEntity b etype;
          (overrideQuery, b') = getQueryOverrideForEntity b etype
      in queriesLoop b' rest
           (code @ fetchFunctionCode etype
                     (querySnippet overrideQuery (defaultQueryTemplate needed))))"

definition generateGraphQLQueries :: "builder \<Rightarrow> string \<times> builder" where
  \<open>generateGraphQLQueries b =
     (case queriesLoop b (selectedEntityTypes b) (''const entityData = {};\<newline>''
       @ ''\<newline>'') of
        (code, b') \<Rightarrow>
          (code
           @ (''async function fetchAllData() {\<newline>''
             @ ''  '')
           @ join ''\<newline>  ''
               (map (\<lambda>et. ''await fetch'' @ dots_to_underscores et @ ''();'') (selectedEntityTypes b))
           @ (''\<newline>''
             @ ''  displayHierarchicalData();\<newline>''
             @ ''}''), b'))\<close>

section \<open>Override texts with one heading per entity type\<close>







section \<open>The report compiler\<close>

text \<open>
  The texts of the generators that read nothing but their own arguments, and the fixed
  pieces of the two page templates between their holes, are arguments of the
  compiler: \<open>generateHelperFunctions()\<close>, \<open>generateReportCSS(displayMode)\<close>, the
  style block of \<open>generateAggregateCSS\<close>, \<open>generateHierarchicalDisplay(displayMode)\<close>
  (which reads the selected entity types, the relationships and the selected fields),
  and \<open>generateSingleEntityDisplayFunction(displayMode, entityType, fields)\<close>.
\<close>

record fragments =
  helperFunctions_text :: string
  reportCSS_text :: "string \<Rightarrow> string"
  aggregateCSS_text :: string
  hierarchicalDisplay_text ::
    "string \<Rightarrow> string list \<Rightarrow> relationship option list
       \<Rightarrow> (string \<times> selected_field list) list \<Rightarrow> string"
  singleDisplay_text :: "string \<Rightarrow> string \<Rightarrow> selected_field list \<Rightarrow> string"
  multiPage_pieces :: "string list"
  singlePage_pieces :: "string list"

text \<open>
  A template literal: the fixed pieces with the values of the holes between them
  (a piece that is not given is empty; every hole is written).
\<close>

fun fill :: "string list \<Rightarrow> string list \<Rightarrow> string" where
  "fill pieces [] = (case pieces of [] \<Rightarrow> [] | p # _ \<Rightarrow> p)"
| "fill pieces (h # hs) = (case pieces of [] \<Rightarrow> [] | p # _ \<Rightarrow> p) @ h @ fill (tl pieces) hs"

text \<open>\<open>sanitizeInput(input, maxLength)\<close>\<close>

definition sanitizeInput :: "string \<Rightarrow> nat \<Rightarrow> string" where
  "sanitizeInput input maxLength = (if input = [] then [] else take maxLength (trim input))"

definition MAX_TITLE_LENGTH :: nat where
  "MAX_TITLE_LENGTH = 200"

definition MAX_DESCRIPTION_LENGTH :: nat where
  "MAX_DESCRIPTION_LENGTH = 1000"

definition generateAggregateCSS :: "fragments \<Rightarrow> aggregate_stats \<Rightarrow> string" where
  "generateAggregateCSS frag stats = (if \<not> hasStats stats then [] else aggregateCSS_text frag)"

text \<open>The default query of the single-entity report.\<close>

definition defaultQueryBody :: "selected_field list \<Rightarrow> string" where
  \<open>defaultQueryBody flds =
     (''\<newline>''
       @ ''        query GetEntities('' @ [CHR 0x5C] @ ''$first: Int!, '' @ [CHR 0x5C]
       @ ''$entityType: [String!]) {\<newline>''
       @ ''          entityQuery {\<newline>''
       @ ''            queryEntities(first: '' @ [CHR 0x5C] @ ''$first, entityType: ''
       @ [CHR 0x5C] @ ''$entityType) {\<newline>''
       @ ''              totalCount\<newline>''
       @ ''              entities {\<newline>''
       @ ''                '')
     @ join ([CHR 0x5C] @ ''n                '')
         (map sf_name (filter (\<lambda>f. sf_location f = ''basic'') flds))
     @ (if list_ex (\<lambda>f. sf_location f = ''tag'') flds
        then ([CHR 0x5C] @ ''n                tags { key value }'') else [])
     @ (if list_ex (\<lambda>f. sf_location f = ''property'') flds
        then ([CHR 0x5C] @ ''n                properties { name value }'') else [])
     @ (if list_ex (\<lambda>f. startsWith (sf_location f) ''namespace:'') flds
        then ([CHR 0x5C] @ ''n                namespaces { name properties { name value } }'')
        else [])
     @ (''\<newline>''
       @ ''              }\<newline>''
       @ ''            }\<newline>''
       @ ''          }\<newline>''
       @ ''        }\<newline>''
       @ ''      '')\<close>

text \<open>
  \<open>generateSingleEntityReport\<close>. The two holes \<open>aggregateStats.length > 0 ? ... : ''\<close>
  are always empty, since \<open>aggregateStats\<close> is an object keyed by entity type.
\<close>

definition generateSingleEntityReport ::
  "fragments \<Rightarrow> builder \<Rightarrow> string \<Rightarrow> string \<Rightarrow> string \<Rightarrow> (js_error + string) \<times> builder" where
  \<open>generateSingleEntityReport frag b title description displayMode =
     (let etype = selectedEntityTypes b ! 0;
          flds = (case map_of (selectedFields b) etype of None \<Rightarrow> [] | Some fs \<Rightarrow> fs);
          displayFunction = singleDisplay_text frag displayMode etype flds;
          helperFunctions = helperFunctions_text frag;
          (overrideQuery, b') = getQueryOverrideForEntity b etype;
          queryDeclaration = querySnippet overrideQuery (defaultQueryBody flds);
          escapedTitle = escapeHTML (sanitizeInput title MAX_TITLE_LENGTH);
          escapedDesc = (if description \<noteq> []
                         then escapeHTML (sanitizeInput description MAX_DESCRIPTION_LENGTH) else [])
      in case generateAggregateQueries (aggregateData_binding b) (aggregateStats b) of
           Inl err \<Rightarrow> (Inl err, b')
         | Inr aggregateQueries \<Rightarrow>
             (Inr (fill (singlePage_pieces frag)
                     [escapedTitle,
                      generateAggregateCSS frag (aggregateStats b),
                      escapedTitle,
                      (if escapedDesc \<noteq> []
                       then ''<p style="color: #9ca3af; margin-top: 8px;">'' @ escapedDesc @ ''</p>''
                       else []),
                      [],
                      helperFunctions,
                      aggregateQueries,
                      generateAggregateRenderer (aggregateStats b),
                      queryDeclaration,
                      etype,
                      displayFunction,
                      []]), b'))\<close>

text \<open>\<open>generateMultiEntityReport\<close>: the compile function.\<close>

definition generateMultiEntityReport ::
  "fragments \<Rightarrow> builder \<Rightarrow> string \<Rightarrow> string \<Rightarrow> string \<Rightarrow> (js_error + string) \<times> builder" where
  \<open>generateMultiEntityReport frag b title description displayMode =
     (if length (selectedEntityTypes b) = 1
      then generateSingleEntityReport frag b title description displayMode
      else
        (let (queries, b') = generateGraphQLQueries b;
             displayFunction =
               hierarchicalDisplay_text frag displayMode (selectedEntityTypes b)
                 (builder_relationships b) (selectedFields b);
             helperFunctions = helperFunctions_text frag;
             escapedTitle = escapeHTML (sanitizeInput title MAX_TITLE_LENGTH);
             escapedDesc = (if description \<noteq> []
                            then escapeHTML (sanitizeInput description MAX_DESCRIPTION_LENGTH)
                            else [])
         in case generateAggregateQueries (aggregateData_binding b) (aggregateStats b) of
              Inl err \<Rightarrow> (Inl err, b')
            | Inr aggregateQueries \<Rightarrow>
                (Inr (fill (multiPage_pieces frag)
                        [escapedTitle,
                         reportCSS_text frag displayMode,
                         generateAggregateCSS frag (aggregateStats b),
                         escapedTitle,
                         (if escapedDesc \<noteq> [] then ''<p>'' @ escapedDesc @ ''</p>'' else []),
                         [],
                         helperFunctions,
                         queries,
                         aggregateQueries,
                         generateAggregateRenderer (aggregateStats b),
                         displayFunction,
                         []]), b')))\<close>



text \<open>The configuration of a builder: everything but the override cache.\<close>

definition same_configuration :: "builder \<Rightarrow> builder \<Rightarrow> bool" where
  "same_configuration b1 b2 =
     (schema b1 = schema b2
      \<and> schemaCache_entityMap b1 = schemaCache_entityMap b2
      \<and> selectedEntityTypes b1 = selectedEntityTypes b2
      \<and> builder_relationships b1 = builder_relationships b2
      \<and> selectedFields b1 = selectedFields b2
      \<and> aggregateStats b1 = aggregateStats b2
      \<and> customQueryOverride b1 = customQueryOverride b2
      \<and> aggregateData_binding b1 = aggregateData_binding b2)"

section \<open>Sample builders\<close>











section \<open>Properties of the join engine\<close>

lemma children_buildNode:
  "children (buildNode cfg d depth e) =
     (if depth < length (relationships cfg)
      then map (buildNode cfg d (Suc depth))
             (filter (childMatches (relationships cfg ! depth) e)
                (data_or_empty d (rel_to (relationships cfg ! depth))))
      else [])"
  by (subst buildNode.simps) simp


lemma entityType_buildNode: "entityType (buildNode cfg d depth e) = nth_opt (entityTypes cfg) depth"
  by (subst buildNode.simps) simp

lemma node_height_children:
  "node_height n = (if children n = [] then 0 else Suc (Max (node_height ` set (children n))))"
  by (cases n) simp

lemma buildNode_height:
  "node_height (buildNode cfg d depth e) \<le> length (relationships cfg) - depth"
proof (induction cfg d depth e rule: buildNode.induct)
  case (1 cfg d depth e)
  let ?n = "buildNode cfg d depth e"
  let ?cs = "children ?n"
  show ?case
  proof (cases "?cs = []")
    case True
    then have "node_height ?n = 0" by (subst node_height_children) simp
    then show ?thesis by simp
  next
    case False
    then have lt: "depth < length (relationships cfg)"
      by (simp add: children_buildNode split: if_splits)
    have "\<forall>c \<in> set ?cs. node_height c \<le> length (relationships cfg) - Suc depth"
      using lt 1 by (auto simp: children_buildNode)
    then have m: "Max (node_height ` set ?cs) \<le> length (relationships cfg) - Suc depth"
      using False by simp
    have "node_height ?n = Suc (Max (node_height ` set ?cs))"
      using False by (subst node_height_children) simp
    then show ?thesis using lt m by linarith
  qed
qed


lemma example_values:
  "getRelationshipValue rec_a1 ''id'' (Some ''basic'') = JNum 1"
  "getRelationshipValue rec_bx ''aId'' (Some ''basic'') = JNum 1"
  "getRelationshipValue rec_by ''aId'' (Some ''basic'') = JNum 1"
  "getRelationshipValue rec_bz ''aId'' (Some ''basic'') = JNum 3"
  by (simp_all add: getRelationshipValue_def entity_get_def rec_a1_def rec_bx_def rec_by_def rec_bz_def)



text \<open>
  Claim C10. \<open>buildNode\<close> is a total function (its termination is proved with the
  measure \<open>length relationships - depth\<close>), and the tree it returns is no deeper than
  the number of relationships that remain below \<open>depth\<close>, whatever the data holds.
\<close>

theorem buildNode_depth_bounded:
  "node_height (buildNode cfg d depth e) \<le> length (relationships cfg) - depth"
  by (rule buildNode_height)

text \<open>A record that joins to itself: the recursion still stops after one level.\<close>

lemma buildNode_self_join:
  "buildNode self_cfg (map_of [(''A'', [rec_a1])]) 0 rec_a1 =
     Node (Some ''A'') rec_a1 [Node (Some ''A'') rec_a1 []]"
  by (simp add: buildNode.simps self_cfg_def data_or_empty_def childMatches_def valuesMatch_def
        example_values nth_opt_def)

theorem buildNode_depth_bounded_witness:
  "node_height (buildNode self_cfg (map_of [(''A'', [rec_a1])]) 0 rec_a1) \<le> 1"
  using buildNode_depth_bounded [of self_cfg "map_of [(''A'', [rec_a1])]" 0 rec_a1]
  by (simp add: self_cfg_def)

section \<open>Properties of the flattening\<close>

lemma length_js_set: "i < length row \<Longrightarrow> length (js_set row i v) = length row"
  by (simp add: js_set_def)

lemma traverse_unfold:
  "traverse dc depth n row =
     (if children n = [] \<or> int depth = int dc - 1 then [js_set row depth (CNode n)]
      else concat (map (\<lambda>child. traverse dc (Suc depth) child (js_set row depth (CNode n))) (children n)))"
  by (cases n) (simp add: traverse.simps Let_def)

lemma terminal_branches_unfold:
  "terminal_branches dc depth n =
     (if children n = [] \<or> Suc depth = dc then 1
      else sum_list (map (terminal_branches dc (Suc depth)) (children n)))"
  by (cases n) simp

lemma traverse_row_length:
  "length row = dc \<Longrightarrow> depth < dc \<Longrightarrow> r \<in> set (traverse dc depth n row) \<Longrightarrow> length r = dc"
proof (induction n arbitrary: depth row r)
  case (Node t e cs)
  let ?n = "Node t e cs"
  let ?next = "js_set row depth (CNode ?n)"
  have ln: "length ?next = dc" using Node.prems(1,2) by (simp add: length_js_set)
  show ?case
  proof (cases "cs = [] \<or> int depth = int dc - 1")
    case True
    then have "traverse dc depth ?n row = [?next]" by (subst traverse_unfold) simp
    with Node.prems(3) ln show ?thesis by simp
  next
    case False
    then have sd: "Suc depth < dc" using Node.prems(2) by linarith
    from False have "traverse dc depth ?n row
        = concat (map (\<lambda>child. traverse dc (Suc depth) child ?next) cs)"
      by (subst traverse_unfold) simp
    with Node.prems(3) obtain c where c: "c \<in> set cs"
      and r: "r \<in> set (traverse dc (Suc depth) c ?next)"
      by auto
    show ?thesis by (rule Node.IH[OF c ln sd r])
  qed
qed

lemma traverse_count:
  "0 < dc \<Longrightarrow> length (traverse dc depth n row) = terminal_branches dc depth n"
proof (induction n arbitrary: depth row)
  case (Node t e cs)
  let ?n = "Node t e cs"
  let ?next = "js_set row depth (CNode ?n)"
  have eq: "(int depth = int dc - 1) = (Suc depth = dc)" using Node.prems by linarith
  show ?case
  proof (cases "cs = [] \<or> Suc depth = dc")
    case True
    then have "traverse dc depth ?n row = [?next]" using eq by (subst traverse_unfold) simp
    moreover have "terminal_branches dc depth ?n = 1"
      using True by (subst terminal_branches_unfold) simp
    ultimately show ?thesis by simp
  next
    case False
    have t: "traverse dc depth ?n row
        = concat (map (\<lambda>child. traverse dc (Suc depth) child ?next) cs)"
      using False eq by (subst traverse_unfold) simp
    have b: "terminal_branches dc depth ?n = sum_list (map (terminal_branches dc (Suc depth)) cs)"
      using False by (subst terminal_branches_unfold) simp
    have "map (\<lambda>c. length (traverse dc (Suc depth) c ?next)) cs
       = map (terminal_branches dc (Suc depth)) cs"
      using Node.IH Node.prems by (intro map_cong) auto
    then show ?thesis unfolding t b by (simp only: length_concat map_map comp_def)
  qed
qed

lemma terminal_branches_leaves:
  "node_height n + depth < dc \<Longrightarrow> terminal_branches dc depth n = leaves n"
proof (induction n arbitrary: depth)
  case (Node t e cs)
  show ?case
  proof (cases "cs = []")
    case True then show ?thesis by simp
  next
    case False
    have hc: "\<And>c. c \<in> set cs \<Longrightarrow> Suc (node_height c) \<le> node_height (Node t e cs)"
      using False by (simp add: Max_ge)
    have "\<And>c. c \<in> set cs \<Longrightarrow> terminal_branches dc (Suc depth) c = leaves c"
    proof -
      fix c assume c: "c \<in> set cs"
      have "node_height c + Suc depth < dc" using hc[OF c] Node.prems by linarith
      then show "terminal_branches dc (Suc depth) c = leaves c" using Node.IH c by simp
    qed
    then have m: "map (terminal_branches dc (Suc depth)) cs = map leaves cs" by simp
    have "Suc depth \<noteq> dc" using Node.prems False by auto
    then show ?thesis using False by (simp add: m)
  qed
qed

lemma buildNodes_empty_roots:
  "buildNodes cfg d = [] \<Longrightarrow> entityTypes cfg \<noteq> [] \<Longrightarrow> data_or_empty d (entityTypes cfg ! 0) = []"
  by (simp add: buildNodes_def)

lemma collectRows_rows:
  "collectRows cfg d =
     concat (map (\<lambda>n. traverse (depthCount_of cfg) 0 n (replicate (depthCount_of cfg) CNull))
       (buildNodes cfg d))"
proof (cases "buildNodes cfg d = [] \<and> entityTypes cfg \<noteq> []")
  case True
  then show ?thesis using buildNodes_empty_roots [of cfg d]
    by (simp add: collectRows_def Let_def)
next
  case False
  then show ?thesis by (auto simp: collectRows_def Let_def)
qed

text \<open>
  Claim C2. \<open>collectRows\<close> returns one row per terminal branch of the tree that
  \<open>buildNodes\<close> produces, and every row has as many cells as there are configured
  entity types. When the relationships are fewer than the entity types (the chain
  invariant of the configuration), the terminal branches are the leaves of the tree.
\<close>

theorem collectRows_row_count:
  "length (collectRows cfg d) =
     sum_list (map (terminal_branches (length (entityTypes cfg)) 0) (buildNodes cfg d))
   \<and> (\<forall>row \<in> set (collectRows cfg d). length row = length (entityTypes cfg))
   \<and> (length (relationships cfg) < length (entityTypes cfg) \<longrightarrow>
        length (collectRows cfg d) = sum_list (map leaves (buildNodes cfg d)))"
proof (cases "entityTypes cfg = []")
  case True
  then have "buildNodes cfg d = []" by (simp add: buildNodes_def)
  then show ?thesis using True by (simp add: collectRows_rows)
next
  case False
  then have dc: "depthCount_of cfg = length (entityTypes cfg)" and pos: "0 < length (entityTypes cfg)"
    by (simp_all add: depthCount_of_def)
  let ?dc = "length (entityTypes cfg)"
  have cnt: "length (collectRows cfg d) = sum_list (map (terminal_branches ?dc 0) (buildNodes cfg d))"
    unfolding collectRows_rows dc
    by (simp add: length_concat comp_def traverse_count [OF pos])
  have len: "\<forall>row \<in> set (collectRows cfg d). length row = ?dc"
    unfolding collectRows_rows dc
    using traverse_row_length [of "replicate ?dc CNull" ?dc 0] pos by auto
  have lv: "length (collectRows cfg d) = sum_list (map leaves (buildNodes cfg d))"
    if lt: "length (relationships cfg) < ?dc"
  proof -
    have "\<And>n. n \<in> set (buildNodes cfg d) \<Longrightarrow> terminal_branches ?dc 0 n = leaves n"
    proof -
      fix n assume "n \<in> set (buildNodes cfg d)"
      then obtain r where n: "n = buildNode cfg d 0 r" by (auto simp: buildNodes_def split: if_splits)
      have "node_height n + 0 < ?dc" using buildNode_height [of cfg d 0 r] lt n by simp
      then show "terminal_branches ?dc 0 n = leaves n" by (rule terminal_branches_leaves)
    qed
    then have "map (terminal_branches ?dc 0) (buildNodes cfg d) = map leaves (buildNodes cfg d)"
      by simp
    with cnt show ?thesis by simp
  qed
  show ?thesis using cnt len lv by blast
qed

theorem collectRows_row_count_witness:
  "length (collectRows example_cfg example_data) = 3
   \<and> map length (collectRows example_cfg example_data) = [2, 2, 2]
   \<and> length (relationships example_cfg) < length (entityTypes example_cfg)
   \<and> sum_list (map leaves (buildNodes example_cfg example_data)) = 3"
proof -
  have rels: "length (relationships example_cfg) < length (entityTypes example_cfg)"
    by (simp add: example_cfg_def)
  have vals: "getRelationshipValue rec_a2 ''id'' (Some ''basic'') = JNum 2"
    by (simp add: getRelationshipValue_def entity_get_def rec_a2_def)
  have nodes: "buildNodes example_cfg example_data =
      [Node (Some ''A'') rec_a1 [Node (Some ''B'') rec_bx [], Node (Some ''B'') rec_by []],
       Node (Some ''A'') rec_a2 []]"
    by (simp add: buildNodes_def buildNode.simps example_cfg_def example_data_def
          data_or_empty_def childMatches_def valuesMatch_def example_values vals nth_opt_def)
  have dc: "depthCount_of example_cfg = 2"
    by (simp add: depthCount_of_def example_cfg_def)
  have rows: "map length (collectRows example_cfg example_data) = [2, 2, 2]"
    unfolding collectRows_rows nodes dc
    by (simp add: traverse.simps js_set_def Let_def numeral_2_eq_2)
  have lv: "sum_list (map leaves (buildNodes example_cfg example_data)) = 3"
    unfolding nodes by simp
  show ?thesis
    using collectRows_row_count [of example_cfg example_data] rels lv rows
    by (simp add: example_cfg_def)
qed

text \<open>
  Claim C5. When the root entity type has records and no record of the second entity
  type matches any root under the first relationship, \<open>collectRows\<close> returns one row
  per root record, in order: the root's node followed by \<open>null\<close> in every other
  column. The result is not empty.
\<close>

theorem collectRows_no_matches:
  assumes types: "entityTypes cfg \<noteq> []"
    and rels: "relationships cfg \<noteq> []"
    and roots: "data_or_empty d (entityTypes cfg ! 0) \<noteq> []"
    and nomatch: "\<forall>r \<in> set (data_or_empty d (entityTypes cfg ! 0)).
        \<forall>c \<in> set (data_or_empty d (rel_to (relationships cfg ! 0))).
          \<not> childMatches (relationships cfg ! 0) r c"
  shows "collectRows cfg d =
           map (\<lambda>r. CNode (Node (Some (entityTypes cfg ! 0)) r [])
                     # replicate (length (entityTypes cfg) - 1) CNull)
             (data_or_empty d (entityTypes cfg ! 0))
         \<and> length (collectRows cfg d) = length (data_or_empty d (entityTypes cfg ! 0))
         \<and> collectRows cfg d \<noteq> []"
proof -
  let ?roots = "data_or_empty d (entityTypes cfg ! 0)"
  let ?dc = "length (entityTypes cfg)"
  have dc: "depthCount_of cfg = ?dc" using types by (simp add: depthCount_of_def)
  have pos: "0 < ?dc" using types by simp
  have node: "buildNode cfg d 0 r = Node (Some (entityTypes cfg ! 0)) r []"
    if "r \<in> set ?roots" for r
  proof -
    have "filter (childMatches (relationships cfg ! 0) r)
            (data_or_empty d (rel_to (relationships cfg ! 0))) = []"
      using nomatch that by (simp add: filter_empty_conv)
    then show ?thesis using rels pos
      by (subst buildNode.simps) (simp add: nth_opt_def)
  qed
  have row: "traverse ?dc 0 (Node (Some (entityTypes cfg ! 0)) r []) (replicate ?dc CNull)
      = [CNode (Node (Some (entityTypes cfg ! 0)) r []) # replicate (?dc - 1) CNull]" for r
  proof -
    obtain k where k: "?dc = Suc k" using pos by (cases ?dc) auto
    show ?thesis unfolding k
      by (subst traverse_unfold) (simp add: js_set_def)
  qed
  have nodes: "buildNodes cfg d = map (\<lambda>r. Node (Some (entityTypes cfg ! 0)) r []) ?roots"
    using types node by (simp add: buildNodes_def)
  have eq: "collectRows cfg d =
           map (\<lambda>r. CNode (Node (Some (entityTypes cfg ! 0)) r [])
                     # replicate (?dc - 1) CNull) ?roots"
    unfolding collectRows_rows dc nodes
    by (induction ?roots) (simp_all add: row comp_def)
  show ?thesis using eq roots by simp
qed

theorem collectRows_no_matches_witness:
  "entityTypes example_cfg \<noteq> [] \<and> relationships example_cfg \<noteq> []
   \<and> data_or_empty nomatch_data (entityTypes example_cfg ! 0) \<noteq> []
   \<and> collectRows example_cfg nomatch_data = [[CNode (Node (Some ''A'') rec_a2 []), CNull]]"
proof -
  have vals: "getRelationshipValue rec_a2 ''id'' (Some ''basic'') = JNum 2"
    by (simp add: getRelationshipValue_def entity_get_def rec_a2_def)
  have h1: "entityTypes example_cfg \<noteq> []" and h2: "relationships example_cfg \<noteq> []"
    by (simp_all add: example_cfg_def)
  have h3: "data_or_empty nomatch_data (entityTypes example_cfg ! 0) \<noteq> []"
    by (simp add: example_cfg_def nomatch_data_def data_or_empty_def)
  have h4: "\<forall>r \<in> set (data_or_empty nomatch_data (entityTypes example_cfg ! 0)).
        \<forall>c \<in> set (data_or_empty nomatch_data (rel_to (relationships example_cfg ! 0))).
          \<not> childMatches (relationships example_cfg ! 0) r c"
    by (simp add: example_cfg_def nomatch_data_def data_or_empty_def childMatches_def
          valuesMatch_def example_values vals)
  show ?thesis
    using collectRows_no_matches [OF h1 h2 h3 h4] h1 h2 h3
    by (simp add: example_cfg_def nomatch_data_def data_or_empty_def)
qed

section \<open>Relationship auto-detection\<close>

lemma startsWith_iff: "startsWith s p \<longleftrightarrow> (\<exists>r. s = p @ r)"
  by (induction s p rule: startsWith.induct) auto

lemma includes_iff: "str_includes s pat \<longleftrightarrow> (\<exists>pre suf. s = pre @ pat @ suf)"
proof (induction s)
  case Nil
  then show ?case by auto
next
  case (Cons c cs)
  show ?case
  proof
    assume "str_includes (c # cs) pat"
    then consider "startsWith (c # cs) pat" | "str_includes cs pat" by auto
    then show "\<exists>pre suf. c # cs = pre @ pat @ suf"
    proof cases
      case 1
      then obtain r where "c # cs = pat @ r" by (auto simp: startsWith_iff)
      then have "c # cs = [] @ pat @ r" by simp
      then show ?thesis by blast
    next
      case 2
      then obtain pre suf where "cs = pre @ pat @ suf" using Cons.IH by auto
      then have "c # cs = (c # pre) @ pat @ suf" by simp
      then show ?thesis by blast
    qed
  next
    assume "\<exists>pre suf. c # cs = pre @ pat @ suf"
    then obtain pre suf where e: "c # cs = pre @ pat @ suf" by auto
    show "str_includes (c # cs) pat"
    proof (cases pre)
      case Nil
      then have "startsWith (c # cs) pat" using e by (auto simp: startsWith_iff)
      then show ?thesis by simp
    next
      case (Cons p ps)
      then have "cs = ps @ pat @ suf" using e by simp
      then have "str_includes cs pat" using Cons.IH by auto
      then show ?thesis by simp
    qed
  qed
qed

lemma includes_guid_id: "str_includes s ''guid'' \<Longrightarrow> str_includes s ''id''"
proof -
  assume "str_includes s ''guid''"
  then obtain pre suf where "s = pre @ ''guid'' @ suf" by (auto simp: includes_iff)
  then have "s = (pre @ ''gu'') @ ''id'' @ suf" by simp
  then show ?thesis unfolding includes_iff by blast
qed

lemma looksLikeKey_eq:
  "looksLikeKey = (\<lambda>f. str_includes (toLowerCase (cname f)) ''id''
                     \<or> str_includes (toLowerCase (cname f)) ''name'')"
  by (auto simp: looksLikeKey_def fun_eq_iff dest: includes_guid_id)

lemma preferredFieldMeta_first_keylike: "preferredFieldMeta cs = first_keylike cs"
  by (simp add: preferredFieldMeta_def first_keylike_def looksLikeKey_eq)

text \<open>
  Claim C3, as the code has it. When the two entity types share a field, the detected
  relationship joins on the first common field, in the enumeration order of the
  from-type's fields, whose lower-cased name contains \<open>id\<close> or \<open>name\<close> (a name
  that contains \<open>guid\<close> contains \<open>id\<close>); when no common field does, on the first
  common field. The three substrings are alternatives of one search, not ranks.
\<close>

theorem detectPair_first_keylike:
  assumes "getCommonFields sch fromType toType \<noteq> []"
  shows "\<exists>rel. detectPair sch fromType toType = Some rel
           \<and> rel_from rel = fromType \<and> rel_to rel = toType
           \<and> fromField rel = cname (first_keylike (getCommonFields sch fromType toType))
           \<and> toField rel = cname (first_keylike (getCommonFields sch fromType toType))"
  using assms by (simp add: detectPair_def Let_def preferredFieldMeta_first_keylike)

lemma name_first_common:
  "getCommonFields name_first_schema ''A'' ''B'' =
     [CommonField ''name'' ''basic'' ''basic'', CommonField ''id'' ''basic'' ''basic'']"
  by (simp add: getCommonFields_def name_first_schema_def getAllFields_def or_empty_def Let_def)

lemma lower_name: "toLowerCase ''name'' = ''name''" "toLowerCase ''id'' = ''id''"
  by (simp_all add: toLowerCase_def toLowerChar_def Let_def)

theorem detectPair_first_keylike_witness:
  "getCommonFields name_first_schema ''A'' ''B'' \<noteq> []
   \<and> map_option fromField (detectPair name_first_schema ''A'' ''B'') = Some ''name''"
  using detectPair_first_keylike [of name_first_schema "''A''" "''B''"]
  by (auto simp add: name_first_common first_keylike_def lower_name)

text \<open>
  With the common fields \<open>name\<close>, \<open>id\<close> in that order the source joins on
  \<open>name\<close>, where the ranked tie-break of the specification selects \<open>id\<close>.
\<close>

theorem autoDetect_tiebreak_counterexample:
  "map fromField (autoDetectRelationships name_first_schema [''A'', ''B'']) = [''name'']
   \<and> cname (spec_tiebreak (getCommonFields name_first_schema ''A'' ''B'')) = ''id''"
  by (simp add: autoDetectRelationships_def List.map_filter_def detectPair_def name_first_common
        preferredFieldMeta_def looksLikeKey_def spec_tiebreak_def lower_name Let_def)

section \<open>Escaping of aggregate labels\<close>







lemma lt_guarded_append: "lt_guarded a \<Longrightarrow> lt_guarded b \<Longrightarrow> lt_guarded (a @ b)"
proof (induction a rule: lt_guarded.induct)
  case 1
  then show ?case by simp
next
  case (2 c)
  then show ?case by (cases b) simp_all
next
  case (3 c d cs)
  then show ?case by simp
qed

lemma lt_guarded_plain: "c \<noteq> CHR ''<'' \<Longrightarrow> lt_guarded (c # s) = lt_guarded s"
  by (cases s) simp_all

lemma lt_guarded_skip: "CHR ''<'' \<notin> set a \<Longrightarrow> lt_guarded (a @ b) = lt_guarded b"
  by (induction a) (auto simp: lt_guarded_plain)

lemma lt_guarded_no_lt: "CHR ''<'' \<notin> set s \<Longrightarrow> lt_guarded s"
  using lt_guarded_skip [of s "[]"] by simp













section \<open>Override precedence\<close>





























section \<open>Aggregate stats at generation time\<close>











section \<open>Fallback of the query selection\<close>







section \<open>The override cache and determinism\<close>










lemma getParsedOverrideMap_again:
  "getParsedOverrideMap b = (m, b') \<Longrightarrow> getParsedOverrideMap b' = (m, b')"
  by (auto simp: getParsedOverrideMap_def Let_def split: if_splits)

lemma getParsedOverrideMap_config:
  "getParsedOverrideMap b = (m, b') \<Longrightarrow> same_configuration b b'"
  by (auto simp: getParsedOverrideMap_def same_configuration_def Let_def split: if_splits)

lemma same_configuration_refl: "same_configuration b b"
  by (simp add: same_configuration_def)

lemma needed_config:
  "same_configuration b b' \<Longrightarrow> getFieldsNeededForEntity b' e = getFieldsNeededForEntity b e"
proof -
  assume s: "same_configuration b b'"
  then have "neededStep b' e = neededStep b e"
    by (auto simp: fun_eq_iff neededStep_def location_or_resolve_def same_configuration_def
          split: option.splits)
  then show ?thesis using s by (simp add: getFieldsNeededForEntity_def same_configuration_def)
qed

lemma override_lookup:
  "getParsedOverrideMap b = (m, b') \<Longrightarrow>
   \<exists>q. getQueryOverrideForEntity b e = (q, b') \<and> getQueryOverrideForEntity b' e = (q, b')"
  using getParsedOverrideMap_again [of b m b']
  by (auto simp: getQueryOverrideForEntity_def split: option.splits)

lemma queriesLoop_stable:
  "getParsedOverrideMap b = (m, b) \<Longrightarrow> snd (queriesLoop b types code) = b"
proof (induction types arbitrary: code)
  case Nil
  then show ?case by simp
next
  case (Cons e types)
  obtain q where "getQueryOverrideForEntity b e = (q, b)"
    using override_lookup [OF Cons.prems, of e] by blast
  then show ?case using Cons by (simp add: Let_def)
qed

lemma queriesLoop_again:
  assumes "queriesLoop b types code = (r, b')"
  shows "queriesLoop b' types code = (r, b')"
proof (cases types)
  case Nil
  then show ?thesis using assms by simp
next
  case (Cons e rest)
  obtain m b2 where g: "getParsedOverrideMap b = (m, b2)" by (cases "getParsedOverrideMap b")
  have st: "getParsedOverrideMap b2 = (m, b2)" by (rule getParsedOverrideMap_again [OF g])
  have cf: "same_configuration b b2" by (rule getParsedOverrideMap_config [OF g])
  obtain q where o1: "getQueryOverrideForEntity b e = (q, b2)"
    and o2: "getQueryOverrideForEntity b2 e = (q, b2)"
    using override_lookup [OF g, of e] by blast
  let ?c = "code @ fetchFunctionCode e (querySnippet q (defaultQueryTemplate (getFieldsNeededForEntity b e)))"
  have run1: "queriesLoop b types code = queriesLoop b2 rest ?c"
    using Cons o1 by (simp add: Let_def)
  have run2: "queriesLoop b2 types code = queriesLoop b2 rest ?c"
    using Cons o2 needed_config [OF cf] by (simp add: Let_def)
  have "snd (queriesLoop b2 rest ?c) = b2" by (rule queriesLoop_stable [OF st])
  then have "b' = b2" using assms run1 by simp
  then show ?thesis using assms run1 run2 by simp
qed

lemma queriesLoop_config:
  "same_configuration b (snd (queriesLoop b types code))"
proof (induction types arbitrary: b code)
  case Nil
  then show ?case by (simp add: same_configuration_refl)
next
  case (Cons e types)
  obtain m b2 where g: "getParsedOverrideMap b = (m, b2)" by (cases "getParsedOverrideMap b")
  have cf: "same_configuration b b2" by (rule getParsedOverrideMap_config [OF g])
  obtain q where o: "getQueryOverrideForEntity b e = (q, b2)"
    using override_lookup [OF g, of e] by blast
  have "\<And>c. same_configuration b2 (snd (queriesLoop b2 types c))" using Cons by simp
  then have "\<And>c. same_configuration b (snd (queriesLoop b2 types c))"
    using cf by (auto simp: same_configuration_def)
  then show ?case using o by (simp add: Let_def)
qed

lemma generateGraphQLQueries_again:
  assumes "generateGraphQLQueries b = (r, b')"
  shows "generateGraphQLQueries b' = (r, b') \<and> same_configuration b b'"
proof -
  obtain code where l: "queriesLoop b (selectedEntityTypes b) ''const entityData = {};\<newline>\<newline>'' = (code, b')"
    using assms by (auto simp: generateGraphQLQueries_def split: prod.splits)
  have cf: "same_configuration b b'"
    using queriesLoop_config [of b "selectedEntityTypes b" "''const entityData = {};\<newline>\<newline>''"] l
    by simp
  then have t: "selectedEntityTypes b' = selectedEntityTypes b" by (simp add: same_configuration_def)
  have "queriesLoop b' (selectedEntityTypes b') ''const entityData = {};\<newline>\<newline>'' = (code, b')"
    unfolding t by (rule queriesLoop_again [OF l])
  then show ?thesis using assms l cf t by (simp add: generateGraphQLQueries_def)
qed

lemma single_again:
  assumes "generateSingleEntityReport frag b t d m = (r, b')"
  shows "generateSingleEntityReport frag b' t d m = (r, b')"
proof -
  let ?e = "selectedEntityTypes b ! 0"
  obtain mp b2 where g: "getParsedOverrideMap b = (mp, b2)" by (cases "getParsedOverrideMap b")
  have cf: "same_configuration b b2" by (rule getParsedOverrideMap_config [OF g])
  obtain q where o1: "getQueryOverrideForEntity b ?e = (q, b2)"
    and o2: "getQueryOverrideForEntity b2 ?e = (q, b2)"
    using override_lookup [OF g, of ?e] by blast
  have b': "b' = b2"
    using assms o1 by (auto simp: generateSingleEntityReport_def Let_def split: prod.splits sum.splits)
  have same: "selectedEntityTypes b2 = selectedEntityTypes b" "selectedFields b2 = selectedFields b"
    "aggregateStats b2 = aggregateStats b" "aggregateData_binding b2 = aggregateData_binding b"
    using cf by (simp_all add: same_configuration_def)
  have "generateSingleEntityReport frag b2 t d m = generateSingleEntityReport frag b t d m"
    using o1 o2 by (simp add: generateSingleEntityReport_def Let_def same split: sum.splits)
  then show ?thesis using assms b' by simp
qed

text \<open>
  Compiling again right after a compilation gives the same text and leaves the state
  as it is: the first run leaves the cache as the second one reads it.
\<close>

lemma compile_again_same:
  assumes "generateMultiEntityReport frag b t d m = (r, b')"
  shows "generateMultiEntityReport frag b' t d m = (r, b')"
proof (cases "length (selectedEntityTypes b) = 1")
  case True
  then have s: "generateSingleEntityReport frag b t d m = (r, b')"
    using assms by (simp add: generateMultiEntityReport_def)
  have "same_configuration b b'"
  proof -
    obtain mp b2 where g: "getParsedOverrideMap b = (mp, b2)" by (cases "getParsedOverrideMap b")
    obtain q where "getQueryOverrideForEntity b (selectedEntityTypes b ! 0) = (q, b2)"
      using override_lookup [OF g] by blast
    then have "b' = b2"
      using s by (auto simp: generateSingleEntityReport_def Let_def split: prod.splits sum.splits)
    then show ?thesis using getParsedOverrideMap_config [OF g] by simp
  qed
  then have "length (selectedEntityTypes b') = 1" using True by (simp add: same_configuration_def)
  then show ?thesis using single_again [OF s] by (simp add: generateMultiEntityReport_def)
next
  case False
  obtain q b2 where g: "generateGraphQLQueries b = (q, b2)" by (cases "generateGraphQLQueries b")
  have a: "generateGraphQLQueries b2 = (q, b2)" and cf: "same_configuration b b2"
    using generateGraphQLQueries_again [OF g] by simp_all
  have b': "b' = b2"
    using assms False g by (auto simp: generateMultiEntityReport_def Let_def split: sum.splits)
  have same: "selectedEntityTypes b2 = selectedEntityTypes b" "selectedFields b2 = selectedFields b"
    "aggregateStats b2 = aggregateStats b" "aggregateData_binding b2 = aggregateData_binding b"
    "builder_relationships b2 = builder_relationships b"
    using cf by (simp_all add: same_configuration_def)
  have "generateMultiEntityReport frag b2 t d m = generateMultiEntityReport frag b t d m"
    using False g a by (simp add: generateMultiEntityReport_def Let_def same split: sum.splits)
  then show ?thesis using assms b' by simp
qed


end
